theory Spec2Isabelle
  imports Complex_Main "HOL-Library.Word" "HOL-Library.Sublist"
begin

section \<open>JavaScript strings\<close>

text \<open>
  A JavaScript string is a sequence of UTF-16 code units. String literals of the source
  that are plain ASCII are written with \<open>js\<close>; the code units of the source's emoji are
  written out.
\<close>

type_synonym jschar = "16 word"
type_synonym jsstring = "jschar list"

definition js :: "string \<Rightarrow> jsstring" where
  "js s = map of_char s"

text \<open>
  \<open>String.prototype.trim\<close> removes the code units of ECMAScript's WhiteSpace and
  LineTerminator productions from both ends: TAB, LF, VT, FF, CR, SP, NBSP, U+1680,
  U+2000 to U+200A, U+2028, U+2029, U+202F, U+205F, U+3000 and U+FEFF.
\<close>

definition isWhiteSpace :: "jschar \<Rightarrow> bool" where
  "isWhiteSpace c \<longleftrightarrow>
     (0x9 \<le> c \<and> c \<le> 0xD) \<or> c = 0x20 \<or> c = 0xA0 \<or> c = 0x1680 \<or>
     (0x2000 \<le> c \<and> c \<le> 0x200A) \<or> c = 0x2028 \<or> c = 0x2029 \<or> c = 0x202F \<or>
     c = 0x205F \<or> c = 0x3000 \<or> c = 0xFEFF"

definition trimStart :: "jsstring \<Rightarrow> jsstring" where
  "trimStart s = dropWhile isWhiteSpace s"

definition trimEnd :: "jsstring \<Rightarrow> jsstring" where
  "trimEnd s = rev (dropWhile isWhiteSpace (rev s))"

definition trim :: "jsstring \<Rightarrow> jsstring" where
  "trim s = trimEnd (trimStart s)"

text \<open>
  \<open>String.prototype.toLowerCase\<close>, on the code units A to Z. The source only compares
  its result, trimmed, with \<open>"exit"\<close>; no code point outside A to Z has a lower-case
  mapping that yields one of e, x, i, t or a white-space code unit, so the comparison
  is decided by this part of the mapping.
\<close>

definition toLowerUnit :: "jschar \<Rightarrow> jschar" where
  "toLowerUnit c = (if 0x41 \<le> c \<and> c \<le> 0x5A then c + 0x20 else c)"

definition toLowerCase :: "jsstring \<Rightarrow> jsstring" where
  "toLowerCase s = map toLowerUnit s"

definition startsWith :: "jsstring \<Rightarrow> jsstring \<Rightarrow> bool" where
  "startsWith s p \<longleftrightarrow> take (length p) s = p"

text \<open>\<open>s.indexOf(c)\<close> for a one-unit search string: the first position, or -1.\<close>

fun indexOf :: "jsstring \<Rightarrow> jschar \<Rightarrow> int" where
  "indexOf [] c = - 1"
| "indexOf (x # xs) c =
     (if x = c then 0
      else (let i = indexOf xs c in if i = - 1 then - 1 else i + 1))"

text \<open>
  \<open>s.substring(a, b)\<close> clamps both indices to the string and swaps them when they are
  out of order; \<open>s.substring(a)\<close> runs to the end of the string.
\<close>

definition clampIndex :: "jsstring \<Rightarrow> int \<Rightarrow> nat" where
  "clampIndex s i = nat (min (max i 0) (int (length s)))"

definition substring :: "jsstring \<Rightarrow> int \<Rightarrow> int \<Rightarrow> jsstring" where
  "substring s a b =
     (let from = min (clampIndex s a) (clampIndex s b);
          to = max (clampIndex s a) (clampIndex s b)
      in take (to - from) (drop from s))"

definition substringFrom :: "jsstring \<Rightarrow> int \<Rightarrow> jsstring" where
  "substringFrom s a = drop (clampIndex s a) s"

text \<open>\<open>s.split("\n")\<close>: the pieces between line feeds; an empty string gives one empty piece.\<close>

fun split_lines :: "jsstring \<Rightarrow> jsstring list" where
  "split_lines [] = [[]]"
| "split_lines (c # cs) =
     (if c = 0xA then [] # split_lines cs
      else (case split_lines cs of
              [] \<Rightarrow> [[c]]
            | l # ls \<Rightarrow> (c # l) # ls))"

section \<open>The config loader\<close>

text \<open>\<open>process.env\<close> is a dictionary from variable names to string values.\<close>

type_synonym environment = "jsstring \<rightharpoonup> jsstring"

text \<open>
  \<open>process.env[key] = value\<close>, as Node carries it out on a POSIX system: name and value
  are handed to the C library's \<open>setenv\<close> as NUL-terminated strings, so each of them ends
  at its first NUL code unit, and \<open>setenv\<close> refuses an empty name, which Node does not
  report: the assignment is then dropped. (A name never holds \<open>=\<close> here: the key is
  cut before the first one.) The text of the file is decoded UTF-8, which has no
  unpaired surrogate, so the conversion of names and values to UTF-8 changes nothing.
\<close>

definition assign_env :: "environment \<Rightarrow> jsstring \<Rightarrow> jsstring \<Rightarrow> environment" where
  "assign_env env key val =
     (let name = takeWhile (\<lambda>c. c \<noteq> 0) key
      in if name = [] then env else env(name \<mapsto> takeWhile (\<lambda>c. c \<noteq> 0) val))"

text \<open>The body of the \<open>for\<close> loop of \<open>loadEnv\<close>, for one line of the file.\<close>

definition loadEnv_line :: "environment \<Rightarrow> jsstring \<Rightarrow> environment" where
  "loadEnv_line env line =
     (let trimmed = trim line in
      if trimmed \<noteq> [] \<and> \<not> startsWith trimmed (js ''#'') then
        (let eqIndex = indexOf trimmed 0x3D in
         if eqIndex \<noteq> - 1 then
           (let key = trim (substring trimmed 0 eqIndex);
                val = trim (substringFrom trimmed (eqIndex + 1))
            in assign_env env key val)
         else env)
      else env)"

datatype out = Log (out_text: jsstring) | Error (out_text: jsstring)

text \<open>
  \<open>readFileSync\<close> returns the text of the file or throws; the thrown error's message is
  all that \<open>loadEnv\<close> reads of it. \<open>console.error\<close> joins its two arguments with a space.
\<close>

definition loadEnv :: "environment \<Rightarrow> jsstring + jsstring \<Rightarrow> environment \<times> out list" where
  "loadEnv env file =
     (case file of
        Inr envFile \<Rightarrow> (fold (\<lambda>line e. loadEnv_line e line) (split_lines envFile) env, [])
      | Inl e_message \<Rightarrow>
          (env, [Error ([0x26A0, 0xFE0F] @ js ''  Could not read .env file:'' @ js '' '' @ e_message)]))"

section \<open>Messages, requests and responses\<close>

datatype role = System | User | Assistant

text \<open>
  The content of a message is text; the completion endpoint's library types the
  content of a returned message as text or \<open>null\<close>.
\<close>

datatype content = Text jsstring | Null

record message =
  role :: role
  content :: content

text \<open>
  The argument of \<open>client.chat.completions.create\<close>. The number literal \<open>0.7\<close> is only
  passed on, never computed with; it is represented by the decimal it denotes.
\<close>

record request =
  model :: jsstring
  messages :: "message list"
  temperature :: real
  max_tokens :: int

record choice =
  message :: message

record response =
  choices :: "choice list"

text \<open>
  What a \<open>catch\<close> reads of a thrown error: \<open>error.status\<close> (a number, or \<open>undefined\<close>)
  and \<open>error.message\<close>.
\<close>

record js_error =
  error_status :: "int option"
  error_message :: jsstring

text \<open>
  What one call of \<open>client.chat.completions.create\<close> does, as the program sees it: it
  throws an error or returns a response. One attempt of the library at the endpoint
  ends in the same two ways.
\<close>

type_synonym outcome = "js_error + response"

record client_options =
  baseURL :: jsstring
  apiKey :: jsstring

section \<open>The client library\<close>

text \<open>
  The client is built by \<open>new OpenAI({ baseURL, apiKey })\<close> with no other option, so the
  defaults of the library apply to it. The library is not part of the repository; its
  retry policy is modelled from its documentation: a call of \<open>create\<close> sends the
  request and, while retries remain (\<open>maxRetries\<close>, 2 by default), sends it again when
  an attempt ends in a connection error (an error without status) or in one of the
  statuses 408, 409, 429 and 500 or above. The first response, or the error of the last
  attempt, is what the call returns or throws. The waiting time between two attempts
  is not modelled.
\<close>

definition default_maxRetries :: nat where
  "default_maxRetries = 2"

definition shouldRetry :: "js_error \<Rightarrow> bool" where
  "shouldRetry e =
     (case error_status e of
        None \<Rightarrow> True
      | Some status \<Rightarrow> status = 408 \<or> status = 409 \<or> status = 429 \<or> 500 \<le> status)"

text \<open>
  \<open>endpoint k\<close> is what attempt number \<open>k\<close> of a call ends in. \<open>makeRequest\<close> returns
  the number of requests sent so far together with the outcome of the call.
\<close>

fun makeRequest :: "(nat \<Rightarrow> outcome) \<Rightarrow> nat \<Rightarrow> nat \<Rightarrow> nat \<times> outcome" where
  "makeRequest endpoint 0 k = (Suc k, endpoint k)"
| "makeRequest endpoint (Suc retriesRemaining) k =
     (case endpoint k of
        Inr response \<Rightarrow> (Suc k, Inr response)
      | Inl e \<Rightarrow>
          if shouldRetry e then makeRequest endpoint retriesRemaining (Suc k)
          else (Suc k, Inl e))"

definition create :: "(nat \<Rightarrow> outcome) \<Rightarrow> nat \<times> outcome" where
  "create endpoint = makeRequest endpoint default_maxRetries 0"

section \<open>The state of the process\<close>

text \<open>
  \<open>console\<close> is what has been printed and \<open>requests\<close> the arguments of the calls of
  \<open>create\<close> made so far, both in order; how often the library sends the request of one
  call is the matter of \<open>chat_with_endpoint\<close>. \<open>exit_code\<close> is set once the process has
  ended.
\<close>

record state =
  env :: environment
  console :: "out list"
  client :: "client_options option"
  requests :: "request list"
  conversationHistory :: "message list"
  rl_closed :: bool
  exit_code :: "int option"

definition system_prompt :: jsstring where
  "system_prompt = js
     (''You are an expert coding assistant with deep knowledge across multiple programming languages and software development concepts. Your role is to:\<newline>'' @
      ''    \<newline>'' @
      ''- Help developers understand programming concepts clearly\<newline>'' @
      ''- Provide accurate, working code examples\<newline>'' @
      ''- Assist with debugging and troubleshooting\<newline>'' @
      ''- Suggest best practices and clean code principles\<newline>'' @
      ''- Support languages including JavaScript, Python, Java, C++, TypeScript, and more\<newline>'' @
      ''- Explain complex topics in a simple, easy-to-understand way\<newline>'' @
      ''\<newline>'' @
      ''Always format code examples using proper code blocks. Be concise but thorough in your explanations.'')"

definition initial_history :: "message list" where
  "initial_history = [\<lparr>role = System, content = Text system_prompt\<rparr>]"

section \<open>One exchange with the endpoint\<close>

text \<open>
  Reading \<open>response.choices[0].message\<close> when \<open>choices\<close> is empty throws a TypeError, which
  has no \<open>status\<close>; its message is the engine's.
\<close>

definition no_choice_error :: js_error where
  \<open>no_choice_error =
     \<lparr>error_status = None,
      error_message = js ''Cannot read properties of undefined (reading 'message')''\<rparr>\<close>

text \<open>
  \<open>chat\<close>: the user message is pushed, the request is built from the history as it
  then is and issued, and \<open>created\<close> is the outcome of that call.
\<close>

definition chat :: "state \<Rightarrow> outcome \<Rightarrow> jsstring \<Rightarrow> (js_error + content) \<times> state" where
  "chat s created userMessage =
     (let s1 = s\<lparr>conversationHistory :=
                  conversationHistory s @ [\<lparr>role = User, content = Text userMessage\<rparr>]\<rparr>;
          req = \<lparr>model = js ''gpt-4o'', messages = conversationHistory s1,
                 temperature = 0.7, max_tokens = 1024\<rparr>;
          s2 = s1\<lparr>requests := requests s1 @ [req]\<rparr>
      in case created of
           Inl e \<Rightarrow> (Inl e, s2)
         | Inr response \<Rightarrow>
             (case choices response of
                [] \<Rightarrow> (Inl no_choice_error, s2)
              | c # _ \<Rightarrow>
                  (let assistantReply = content (message c)
                   in (Inr assistantReply,
                       s2\<lparr>conversationHistory :=
                            conversationHistory s2 @
                              [\<lparr>role = Assistant, content = assistantReply\<rparr>]\<rparr>))))"

text \<open>
  \<open>chat\<close> with the library under it: the number of requests that go to the endpoint
  during the one call of \<open>create\<close>, and what \<open>chat\<close> does with the outcome of that call.
\<close>

definition chat_with_endpoint ::
  "state \<Rightarrow> (nat \<Rightarrow> outcome) \<Rightarrow> jsstring \<Rightarrow> nat \<times> (js_error + content) \<times> state" where
  "chat_with_endpoint s endpoint userMessage =
     (let (sent, created) = create endpoint in (sent, chat s created userMessage))"

section \<open>The conversation loop\<close>

text \<open>A template literal prints \<open>null\<close> as the text \<open>null\<close>.\<close>

fun to_text :: "content \<Rightarrow> jsstring" where
  "to_text (Text t) = t"
| "to_text Null = js ''null''"

definition farewell :: jsstring where
  "farewell = js ''\<newline>Goodbye! Happy coding! '' @ [0xD83D, 0xDC4B]"

definition reminder :: jsstring where
  \<open>reminder = js ''(Please type a question or type "exit" to quit.)\<newline>''\<close>

text \<open>The notices of the \<open>catch\<close> block, as written to \<open>console.error\<close>.\<close>

definition authentication_notice :: "out list" where
  "authentication_notice =
     [Error ([0xA, 0x274C] @
             js '' Authentication Error: Your GITHUB_TOKEN is invalid or missing.''),
      Error (js ''Please check your .env file and try again.\<newline>'')]"

definition rate_limit_notice :: "out list" where
  "rate_limit_notice =
     [Error ([0xA, 0x26A0, 0xFE0F] @
             js ''  Rate Limit Reached: Too many requests. Please wait a moment.\<newline>'')]"

definition server_error_notice :: "out list" where
  "server_error_notice =
     [Error ([0xA, 0x26A0, 0xFE0F] @
             js ''  Server Error: The AI service is temporarily unavailable.\<newline>'')]"

definition unexpected_notice :: "jsstring \<Rightarrow> out list" where
  "unexpected_notice detail =
     [Error ([0xA, 0x274C] @ js '' Unexpected Error: '' @ detail @ js ''\<newline>'')]"

text \<open>The \<open>catch\<close> block of the loop: the notice printed for a thrown error.\<close>

definition report :: "js_error \<Rightarrow> out list" where
  "report error =
     (if error_status error = Some 401 then authentication_notice
      else if error_status error = Some 429 then rate_limit_notice
      else if error_status error = Some 500 then server_error_notice
      else unexpected_notice (error_message error))"

datatype control = Continue | Break

text \<open>
  The body of \<open>while (true)\<close> for one line read from the user; \<open>created\<close> is what a
  call of the endpoint does during this iteration, should one be made.
\<close>

definition iteration :: "state \<Rightarrow> jsstring \<Rightarrow> outcome \<Rightarrow> control \<times> state" where
  "iteration s userInput created =
     (if trim (toLowerCase userInput) = js ''exit'' then
        (Break, s\<lparr>console := console s @ [Log farewell], rl_closed := True\<rparr>)
      else if trim userInput = [] then
        (Continue, s\<lparr>console := console s @ [Log reminder]\<rparr>)
      else
        (let s1 = s\<lparr>console := console s @ [Log (js ''\<newline>Bot: Thinking...'')]\<rparr>
         in case chat s1 created (trim userInput) of
              (Inr reply, s2) \<Rightarrow>
                (Continue,
                 s2\<lparr>console := console s2 @
                      [Log (js ''\<newline>Bot: '' @ to_text reply @ js ''\<newline>''),
                       Log (js ''-----------------------------------------\<newline>'')]\<rparr>)
            | (Inl error, s2) \<Rightarrow>
                (Continue, s2\<lparr>console := console s2 @ report error\<rparr>)))"

text \<open>
  The loop over the lines the user enters. When the lines run out the loop is waiting
  at the prompt (\<open>Continue\<close>); lines after the one that leaves the loop are not read.
\<close>

fun main_loop :: "state \<Rightarrow> (jsstring \<times> outcome) list \<Rightarrow> control \<times> state" where
  "main_loop s [] = (Continue, s)"
| "main_loop s ((userInput, created) # rest) =
     (case iteration s userInput created of
        (Break, s') \<Rightarrow> (Break, s')
      | (Continue, s') \<Rightarrow> main_loop s' rest)"

definition banner :: "out list" where
  \<open>banner =
     [Log (js ''=========================================''),
      Log (js ''   '' @ [0xD83D, 0xDCBB] @ js '' Coding Assistant - Powered by GPT-4o''),
      Log (js ''=========================================''),
      Log (js ''Welcome! I'm your personal coding assistant.''),
      Log (js ''Ask me anything about programming, debugging,''),
      Log (js ''code reviews, or software development concepts.''),
      Log (js ''Type "exit" at any time to quit.\<newline>'')]\<close>

definition main :: "state \<Rightarrow> (jsstring \<times> outcome) list \<Rightarrow> control \<times> state" where
  "main s inputs = main_loop (s\<lparr>console := console s @ banner\<rparr>) inputs"

section \<open>The process\<close>

definition missing_token_notice :: "out list" where
  "missing_token_notice =
     [Error ([0x274C] @ js '' GITHUB_TOKEN not found in your .env file.''),
      Error (js ''Please make sure your .env file contains:''),
      Error (js ''GITHUB_TOKEN=your_token_here'')]"

text \<open>
  The state in which \<open>main\<close> is called: the client is constructed with the token, the
  input interface is open, the history holds the system message, no call has been made.
\<close>

definition started :: "environment \<Rightarrow> out list \<Rightarrow> jsstring \<Rightarrow> state" where
  "started env1 printed token =
     \<lparr>env = env1, console = printed,
      client = Some \<lparr>baseURL = js ''https://models.inference.ai.azure.com'', apiKey = token\<rparr>,
      requests = [], conversationHistory = initial_history,
      rl_closed = False, exit_code = None\<rparr>"

text \<open>
  The state in which \<open>process.exit(1)\<close> ends the process: the guidance is printed, and
  neither the client nor the history has been created.
\<close>

definition exited_without_token :: "environment \<Rightarrow> out list \<Rightarrow> state" where
  "exited_without_token env1 printed =
     \<lparr>env = env1, console = printed @ missing_token_notice, client = None,
      requests = [], conversationHistory = [], rl_closed = False,
      exit_code = Some 1\<rparr>"

text \<open>
  The module from top to bottom: \<open>env0\<close> is the environment the process starts with,
  \<open>file\<close> the outcome of reading the config file, \<open>inputs\<close> the lines the user enters.
  \<open>!token\<close> holds when the variable is \<open>undefined\<close> and when it is the empty string.
  Once \<open>main\<close> has left its loop the input interface is closed, nothing is pending,
  and the process ends with code 0.
\<close>

definition program ::
  "environment \<Rightarrow> jsstring + jsstring \<Rightarrow> (jsstring \<times> outcome) list \<Rightarrow> state" where
  "program env0 file inputs =
     (let (env1, printed) = loadEnv env0 file
      in case env1 (js ''GITHUB_TOKEN'') of
           None \<Rightarrow> exited_without_token env1 printed
         | Some token \<Rightarrow>
             if token = [] then exited_without_token env1 printed
             else
               (case main (started env1 printed token) inputs of
                  (Break, s) \<Rightarrow> s\<lparr>exit_code := Some 0\<rparr>
                | (Continue, s) \<Rightarrow> s))"

section \<open>Example inputs\<close>

text \<open>Concrete values at which the theorems below are instantiated.\<close>

definition example_error :: js_error where
  "example_error = \<lparr>error_status = Some 429, error_message = js ''Too many requests''\<rparr>"

definition example_response :: response where
  "example_response =
     \<lparr>choices = [\<lparr>message = \<lparr>role = Assistant, content = Text (js ''Use a loop.'')\<rparr>\<rparr>]\<rparr>"

definition always_rate_limited :: "nat \<Rightarrow> outcome" where
  "always_rate_limited k = Inl example_error"

definition answers_at_once :: "nat \<Rightarrow> outcome" where
  "answers_at_once k = Inr example_response"

definition example_env :: environment where
  "example_env = [js ''GITHUB_TOKEN'' \<mapsto> js ''t0ken'']"

definition example_state :: state where
  "example_state = started example_env [] (js ''t0ken'')"

section \<open>Facts about the string operations\<close>




lemma trim_all_ws:
  assumes "\<forall>c\<in>set s. isWhiteSpace c"
  shows "trim s = []"
proof -
  from assms have d: "dropWhile isWhiteSpace s = []" by simp
  show ?thesis unfolding trim_def trimStart_def trimEnd_def d by simp
qed





lemma indexOf_not_mem: "c \<notin> set s \<Longrightarrow> indexOf s c = - 1"
  by (induction s) (auto simp: Let_def)








section \<open>Facts about the config loader\<close>












lemma loadEnv_line_skip:
  "(\<forall>c\<in>set l. isWhiteSpace c) \<or> startsWith (trim l) (js ''#'') \<Longrightarrow> loadEnv_line e l = e"
  by (auto simp add: loadEnv_line_def trim_all_ws)

lemma fold_loadEnv_line_skip:
  "\<forall>l\<in>set ls. (\<forall>c\<in>set l. isWhiteSpace c) \<or> startsWith (trim l) (js ''#'') \<Longrightarrow>
   fold (\<lambda>line e. loadEnv_line e line) ls e = e"
  by (induction ls) (simp_all add: loadEnv_line_skip)

section \<open>Facts about one iteration of the loop\<close>





lemma iteration_success:
  assumes "trim (toLowerCase u) \<noteq> js ''exit''" and "trim u \<noteq> []"
    and "created = Inr r" and "choices r = c # cs"
  shows "iteration s u created =
    (Continue,
     s\<lparr>console := console s @
          [Log (js ''\<newline>Bot: Thinking...''),
           Log (js ''\<newline>Bot: '' @ to_text (content (message c)) @ js ''\<newline>''),
           Log (js ''-----------------------------------------\<newline>'')],
       requests := requests s @
          [\<lparr>model = js ''gpt-4o'',
            messages = conversationHistory s @ [\<lparr>role = User, content = Text (trim u)\<rparr>],
            temperature = 0.7, max_tokens = 1024\<rparr>],
       conversationHistory := conversationHistory s @
          [\<lparr>role = User, content = Text (trim u)\<rparr>,
           \<lparr>role = Assistant, content = content (message c)\<rparr>]\<rparr>)"
  using assms by (simp add: iteration_def chat_def Let_def)

lemma iteration_thrown:
  assumes "trim (toLowerCase u) \<noteq> js ''exit''" and "trim u \<noteq> []"
    and "created = Inl e"
  shows "iteration s u created =
    (Continue,
     s\<lparr>console := console s @ Log (js ''\<newline>Bot: Thinking...'') # report e,
       requests := requests s @
          [\<lparr>model = js ''gpt-4o'',
            messages = conversationHistory s @ [\<lparr>role = User, content = Text (trim u)\<rparr>],
            temperature = 0.7, max_tokens = 1024\<rparr>],
       conversationHistory := conversationHistory s @
          [\<lparr>role = User, content = Text (trim u)\<rparr>]\<rparr>)"
  using assms by (simp add: iteration_def chat_def Let_def)

lemma iteration_no_choice:
  assumes "trim (toLowerCase u) \<noteq> js ''exit''" and "trim u \<noteq> []"
    and "created = Inr r" and "choices r = []"
  shows "iteration s u created =
    (Continue,
     s\<lparr>console := console s @ Log (js ''\<newline>Bot: Thinking...'') # report no_choice_error,
       requests := requests s @
          [\<lparr>model = js ''gpt-4o'',
            messages = conversationHistory s @ [\<lparr>role = User, content = Text (trim u)\<rparr>],
            temperature = 0.7, max_tokens = 1024\<rparr>],
       conversationHistory := conversationHistory s @
          [\<lparr>role = User, content = Text (trim u)\<rparr>]\<rparr>)"
  using assms by (simp add: iteration_def chat_def Let_def)

lemma iteration_requests:
  assumes "trim u \<noteq> []" and "trim (toLowerCase u) \<noteq> js ''exit''"
  shows "requests (snd (iteration t u created)) =
     requests t @
       [\<lparr>model = js ''gpt-4o'',
         messages = conversationHistory t @ [\<lparr>role = User, content = Text (trim u)\<rparr>],
         temperature = 0.7, max_tokens = 1024\<rparr>]"
  using assms by (simp add: iteration_def chat_def Let_def split: sum.splits list.splits)

section \<open>The config loader: entries\<close>




section \<open>The config loader: ignored lines\<close>

text \<open>
  C4. A line of the config file that is empty, consists of white space only, or whose
  trimmed form begins with \<open>#\<close>, stores no entry: the loop body leaves the environment
  as it was, and a file made of such lines only leaves it unchanged as a whole.
\<close>

theorem loadEnv_ignores_blank_and_comment:
  "(list_all isWhiteSpace line \<or> startsWith (trim line) (js ''#'') \<longrightarrow>
      loadEnv_line e line = e) \<and>
   (list_all (\<lambda>l. list_all isWhiteSpace l \<or> startsWith (trim l) (js ''#''))
      (split_lines envFile) \<longrightarrow>
      fst (loadEnv e (Inr envFile)) = e)"
proof (intro conjI impI)
  assume "list_all isWhiteSpace line \<or> startsWith (trim line) (js ''#'')"
  then show "loadEnv_line e line = e"
    by (intro loadEnv_line_skip) (simp add: list_all_iff)
next
  assume "list_all (\<lambda>l. list_all isWhiteSpace l \<or> startsWith (trim l) (js ''#''))
            (split_lines envFile)"
  then have "fold (\<lambda>line e. loadEnv_line e line) (split_lines envFile) e = e"
    by (intro fold_loadEnv_line_skip) (simp add: list_all_iff)
  then show "fst (loadEnv e (Inr envFile)) = e"
    by (simp add: loadEnv_def)
qed

theorem loadEnv_ignores_blank_and_comment_witness:
  "list_all isWhiteSpace (js ''   '') \<and>
   loadEnv_line [js ''A'' \<mapsto> js ''1''] (js ''   '') = [js ''A'' \<mapsto> js ''1''] \<and>
   startsWith (trim (js ''  # A=2'')) (js ''#'') \<and>
   loadEnv_line [js ''A'' \<mapsto> js ''1''] (js ''  # A=2'') = [js ''A'' \<mapsto> js ''1''] \<and>
   list_all (\<lambda>l. list_all isWhiteSpace l \<or> startsWith (trim l) (js ''#''))
     (split_lines (js ''# A=2\<newline>\<newline>  #B=3\<newline>  '')) \<and>
   fst (loadEnv [js ''A'' \<mapsto> js ''1''] (Inr (js ''# A=2\<newline>\<newline>  #B=3\<newline>  ''))) =
     [js ''A'' \<mapsto> js ''1'']"
proof -
  have b: "list_all isWhiteSpace (js ''   '')"
    by (simp add: js_def isWhiteSpace_def)
  have c: "startsWith (trim (js ''  # A=2'')) (js ''#'')"
    by (simp add: js_def trim_def trimStart_def trimEnd_def isWhiteSpace_def startsWith_def)
  have f: "list_all (\<lambda>l. list_all isWhiteSpace l \<or> startsWith (trim l) (js ''#''))
             (split_lines (js ''# A=2\<newline>\<newline>  #B=3\<newline>  ''))"
    by (simp add: js_def trim_def trimStart_def trimEnd_def isWhiteSpace_def startsWith_def)
  from b c f
    loadEnv_ignores_blank_and_comment [of "js ''   ''" "[js ''A'' \<mapsto> js ''1'']" "[]"]
    loadEnv_ignores_blank_and_comment [of "js ''  # A=2''" "[js ''A'' \<mapsto> js ''1'']"
       "js ''# A=2\<newline>\<newline>  #B=3\<newline>  ''"]
  show ?thesis by blast
qed

section \<open>Facts about the loop\<close>

lemma iteration_control:
  "fst (iteration s u created) = (if trim (toLowerCase u) = js ''exit'' then Break else Continue)"
  by (simp add: iteration_def chat_def Let_def split: sum.splits list.splits prod.splits)

lemma main_loop_step:
  "main_loop s ((u, created) # rest) =
     (if trim (toLowerCase u) = js ''exit'' then iteration s u created
      else main_loop (snd (iteration s u created)) rest)"
proof -
  obtain c s' where it: "iteration s u created = (c, s')" by (cases "iteration s u created")
  with iteration_control [of s u created]
  have "c = (if trim (toLowerCase u) = js ''exit'' then Break else Continue)" by simp
  with it show ?thesis by simp
qed


lemma main_loop_append_Continue:
  "fst (main_loop s xs) = Continue \<Longrightarrow>
   main_loop s (xs @ ys) = main_loop (snd (main_loop s xs)) ys"
proof (induction xs arbitrary: s)
  case Nil
  then show ?case by simp
next
  case (Cons x xs)
  obtain u created where x: "x = (u, created)" by (cases x)
  show ?case
  proof (cases "trim (toLowerCase u) = js ''exit''")
    case True
    with Cons.prems x have False
      using iteration_control [of s u created] by (simp add: main_loop_step del: main_loop.simps(2))
    then show ?thesis ..
  next
    case False
    with Cons x show ?thesis by (simp add: main_loop_step del: main_loop.simps(2))
  qed
qed

lemma main_loop_append_Break:
  "fst (main_loop s xs) = Break \<Longrightarrow> main_loop s (xs @ ys) = main_loop s xs"
proof (induction xs arbitrary: s)
  case Nil
  then show ?case by simp
next
  case (Cons x xs)
  obtain u created where x: "x = (u, created)" by (cases x)
  with Cons show ?case
    by (cases "trim (toLowerCase u) = js ''exit''") (simp_all add: main_loop_step del: main_loop.simps(2))
qed

lemma iteration_history_prefix:
  "prefix (conversationHistory s) (conversationHistory (snd (iteration s u created)))"
  by (simp add: iteration_def chat_def Let_def split: sum.splits list.splits)

lemma main_loop_history_prefix:
  "prefix (conversationHistory s) (conversationHistory (snd (main_loop s xs)))"
proof (induction xs arbitrary: s)
  case Nil
  then show ?case by simp
next
  case (Cons x xs)
  obtain u created where x: "x = (u, created)" by (cases x)
  show ?case
  proof (cases "trim (toLowerCase u) = js ''exit''")
    case True
    with x show ?thesis
      by (simp add: main_loop_step iteration_history_prefix del: main_loop.simps(2))
  next
    case False
    have "prefix (conversationHistory s) (conversationHistory (snd (iteration s u created)))"
      by (rule iteration_history_prefix)
    also have "prefix \<dots> (conversationHistory (snd (main_loop (snd (iteration s u created)) xs)))"
      by (rule Cons.IH)
    finally show ?thesis using False x by (simp add: main_loop_step del: main_loop.simps(2))
  qed
qed

lemma main_loop_take_prefix:
  "prefix (conversationHistory (snd (main_loop s (take k xs))))
          (conversationHistory (snd (main_loop s xs)))"
proof (cases "fst (main_loop s (take k xs))")
  case Continue
  then have "main_loop s (take k xs @ drop k xs) =
             main_loop (snd (main_loop s (take k xs))) (drop k xs)"
    by (rule main_loop_append_Continue)
  then show ?thesis using main_loop_history_prefix [of "snd (main_loop s (take k xs))" "drop k xs"]
    by simp
next
  case Break
  then have "main_loop s (take k xs @ drop k xs) = main_loop s (take k xs)"
    by (rule main_loop_append_Break)
  then show ?thesis by simp
qed

section \<open>Facts about start-up\<close>

lemma program_with_token:
  assumes "fst (loadEnv env0 file) (js ''GITHUB_TOKEN'') = Some token" and "token \<noteq> []"
  shows "program env0 file inputs =
    (case main_loop ((started (fst (loadEnv env0 file)) (snd (loadEnv env0 file)) token)
                       \<lparr>console := snd (loadEnv env0 file) @ banner\<rparr>) inputs of
       (Break, s) \<Rightarrow> s\<lparr>exit_code := Some 0\<rparr>
     | (Continue, s) \<Rightarrow> s)"
proof -
  obtain env1 printed where l: "loadEnv env0 file = (env1, printed)"
    by (cases "loadEnv env0 file")
  with assms have "env1 (js ''GITHUB_TOKEN'') = Some token" by simp
  with l assms(2) show ?thesis
    by (simp add: program_def main_def started_def)
qed


lemma program_without_token:
  assumes "fst (loadEnv env0 file) (js ''GITHUB_TOKEN'') = None"
  shows "program env0 file inputs =
         exited_without_token (fst (loadEnv env0 file)) (snd (loadEnv env0 file))"
proof -
  obtain env1 printed where l: "loadEnv env0 file = (env1, printed)"
    by (cases "loadEnv env0 file")
  with assms have "env1 (js ''GITHUB_TOKEN'') = None" by simp
  with l show ?thesis by (simp add: program_def)
qed

lemma notice_names_variable:
  "list_ex (\<lambda>l. sublist (js ''GITHUB_TOKEN'') (out_text l)) missing_token_notice"
proof -
  have "prefix (js ''GITHUB_TOKEN'') (js ''GITHUB_TOKEN=your_token_here'')"
    by (simp add: js_def)
  then have "sublist (js ''GITHUB_TOKEN'') (js ''GITHUB_TOKEN=your_token_here'')"
    by (rule prefix_imp_sublist)
  then show ?thesis by (simp add: missing_token_notice_def)
qed

section \<open>Start-up without the token\<close>

text \<open>
  C5. When \<open>GITHUB_TOKEN\<close> is absent from the environment after the config file has
  been loaded, the process ends with exit code 1, whatever the user would have entered:
  what it has printed ends with the guidance, one line of which names \<open>GITHUB_TOKEN\<close>,
  the client has not been constructed and no call has been made on the endpoint.
\<close>

theorem missing_token_exits:
  "(fst (loadEnv env0 file) (js ''GITHUB_TOKEN'') = None \<longrightarrow>
      exit_code (program env0 file inputs) = Some 1 \<and>
      console (program env0 file inputs) = snd (loadEnv env0 file) @ missing_token_notice \<and>
      client (program env0 file inputs) = None \<and>
      requests (program env0 file inputs) = []) \<and>
   list_ex (\<lambda>l. sublist (js ''GITHUB_TOKEN'') (out_text l)) missing_token_notice"
  by (simp add: program_without_token exited_without_token_def notice_names_variable)

theorem missing_token_exits_witness:
  "fst (loadEnv Map.empty (Inr (js ''FOO=bar''))) (js ''GITHUB_TOKEN'') = None \<and>
   exit_code (program Map.empty (Inr (js ''FOO=bar''))
                [(js ''hello'', Inr \<lparr>choices = []\<rparr>)]) = Some 1 \<and>
   client (program Map.empty (Inr (js ''FOO=bar''))
                [(js ''hello'', Inr \<lparr>choices = []\<rparr>)]) = None \<and>
   requests (program Map.empty (Inr (js ''FOO=bar''))
                [(js ''hello'', Inr \<lparr>choices = []\<rparr>)]) = []"
proof -
  have h: "fst (loadEnv Map.empty (Inr (js ''FOO=bar''))) (js ''GITHUB_TOKEN'') = None"
    by (simp add: loadEnv_def loadEnv_line_def assign_env_def js_def trim_def trimStart_def trimEnd_def
        isWhiteSpace_def startsWith_def substring_def substringFrom_def clampIndex_def Let_def)
  from h missing_token_exits [of Map.empty "Inr (js ''FOO=bar'')"
      "[(js ''hello'', Inr \<lparr>choices = []\<rparr>)]"]
  show ?thesis by blast
qed

section \<open>Facts about leaving the loop\<close>





section \<open>The exit command\<close>



section \<open>Blank input\<close>



section \<open>Facts about the client library\<close>

lemma makeRequest_sent:
  "Suc k \<le> fst (makeRequest endpoint r k) \<and> fst (makeRequest endpoint r k) \<le> Suc (k + r)"
proof (induction r arbitrary: k)
  case 0
  show ?case by simp
next
  case (Suc r)
  from Suc [of "Suc k"] show ?case
    by (auto split: sum.splits)
qed

lemma makeRequest_outcome:
  "snd (makeRequest endpoint r k) = endpoint (fst (makeRequest endpoint r k) - 1)"
  by (induction r arbitrary: k) (auto split: sum.splits)

lemma create_cases:
  "endpoint 0 = Inr response \<Longrightarrow> create endpoint = (1, Inr response)"
  "endpoint 0 = Inl e \<Longrightarrow> \<not> shouldRetry e \<Longrightarrow> create endpoint = (1, Inl e)"
  "endpoint 0 = Inl e \<Longrightarrow> shouldRetry e \<Longrightarrow> endpoint 1 = Inr response \<Longrightarrow>
     create endpoint = (2, Inr response)"
  "endpoint 0 = Inl e \<Longrightarrow> shouldRetry e \<Longrightarrow> endpoint 1 = Inl e' \<Longrightarrow> \<not> shouldRetry e' \<Longrightarrow>
     create endpoint = (2, Inl e')"
  "endpoint 0 = Inl e \<Longrightarrow> shouldRetry e \<Longrightarrow> endpoint 1 = Inl e' \<Longrightarrow> shouldRetry e' \<Longrightarrow>
     create endpoint = (3, endpoint 2)"
  by (simp_all add: create_def default_maxRetries_def numeral_2_eq_2)

lemma create_sent: "1 \<le> fst (create endpoint) \<and> fst (create endpoint) \<le> 3"
  using makeRequest_sent [of 0 endpoint default_maxRetries]
  by (simp add: create_def default_maxRetries_def)

lemma chat_requests:
  "requests (snd (chat s created userMessage)) =
     requests s @
       [\<lparr>model = js ''gpt-4o'',
         messages = conversationHistory s @ [\<lparr>role = User, content = Text userMessage\<rparr>],
         temperature = 0.7, max_tokens = 1024\<rparr>]"
  by (simp add: chat_def Let_def split: sum.splits list.splits)

lemma chat_with_endpoint_eq:
  "chat_with_endpoint s endpoint userMessage =
     (fst (create endpoint), chat s (snd (create endpoint)) userMessage)"
  by (simp add: chat_with_endpoint_def split: prod.splits)

section \<open>The request of a completion call\<close>

text \<open>
  C8, as amended. Whatever the call does, \<open>chat\<close> makes exactly one call of \<open>create\<close>:
  model \<open>gpt-4o\<close>, temperature 0.7, at most 1024 tokens, and as messages the whole
  history followed by the new user message. When the call returns a response with at
  least one choice, the result of \<open>chat\<close> is the content of the first choice's message;
  when it throws, \<open>chat\<close> throws that error and calls \<open>create\<close> no second time. Under
  that one call the client, built with the library's defaults, sends the request one
  to three times: once when the first attempt is answered or fails with an error that
  is not retried, twice when the second attempt is, and three times otherwise; the
  outcome of the call is that of the last attempt.
\<close>

theorem chat_calls_create_once:
  "requests (snd (chat s created userMessage)) =
     requests s @
       [\<lparr>model = js ''gpt-4o'',
         messages = conversationHistory s @ [\<lparr>role = User, content = Text userMessage\<rparr>],
         temperature = 0.7, max_tokens = 1024\<rparr>] \<and>
   (created = Inr response \<and> choices response = c # cs \<longrightarrow>
      fst (chat s created userMessage) = Inr (content (message c))) \<and>
   (created = Inl error \<longrightarrow> fst (chat s created userMessage) = Inl error) \<and>
   snd (chat_with_endpoint s endpoint userMessage) =
     chat s (snd (create endpoint)) userMessage \<and>
   1 \<le> fst (chat_with_endpoint s endpoint userMessage) \<and>
   fst (chat_with_endpoint s endpoint userMessage) \<le> 3 \<and>
   snd (create endpoint) = endpoint (fst (chat_with_endpoint s endpoint userMessage) - 1) \<and>
   (endpoint 0 = Inr response \<longrightarrow> fst (chat_with_endpoint s endpoint userMessage) = 1) \<and>
   (endpoint 0 = Inl error \<and> \<not> shouldRetry error \<longrightarrow>
      fst (chat_with_endpoint s endpoint userMessage) = 1) \<and>
   (endpoint 0 = Inl error \<and> shouldRetry error \<and> endpoint 1 = Inr response \<longrightarrow>
      fst (chat_with_endpoint s endpoint userMessage) = 2) \<and>
   (endpoint 0 = Inl error \<and> shouldRetry error \<and> endpoint 1 = Inl error' \<and>
    \<not> shouldRetry error' \<longrightarrow>
      fst (chat_with_endpoint s endpoint userMessage) = 2) \<and>
   (endpoint 0 = Inl error \<and> shouldRetry error \<and> endpoint 1 = Inl error' \<and>
    shouldRetry error' \<longrightarrow>
      fst (chat_with_endpoint s endpoint userMessage) = 3) \<and>
   (shouldRetry error \<longleftrightarrow>
      error_status error = None \<or> error_status error = Some 408 \<or>
      error_status error = Some 409 \<or> error_status error = Some 429 \<or>
      (\<exists>status. error_status error = Some status \<and> 500 \<le> status))"
proof -
  have a: "(created = Inr response \<and> choices response = c # cs \<longrightarrow>
      fst (chat s created userMessage) = Inr (content (message c))) \<and>
   (created = Inl error \<longrightarrow> fst (chat s created userMessage) = Inl error)"
    by (simp add: chat_def Let_def split: sum.splits list.splits)
  have b: "snd (create endpoint) = endpoint (fst (create endpoint) - 1)"
    by (simp add: create_def makeRequest_outcome)
  have c: "shouldRetry error \<longleftrightarrow>
      error_status error = None \<or> error_status error = Some 408 \<or>
      error_status error = Some 409 \<or> error_status error = Some 429 \<or>
      (\<exists>status. error_status error = Some status \<and> 500 \<le> status)"
    by (auto simp add: shouldRetry_def split: option.splits)
  from a b c create_sent [of endpoint] show ?thesis
    by (simp add: chat_requests chat_with_endpoint_eq create_cases)
qed

theorem chat_calls_create_once_witness:
  "choices example_response =
     \<lparr>message = \<lparr>role = Assistant, content = Text (js ''Use a loop.'')\<rparr>\<rparr> # [] \<and>
   fst (chat example_state (Inr example_response) (js ''How do I repeat?'')) =
     Inr (Text (js ''Use a loop.'')) \<and>
   fst (chat example_state (Inl example_error) (js ''How do I repeat?'')) = Inl example_error \<and>
   answers_at_once 0 = Inr example_response \<and>
   fst (chat_with_endpoint example_state answers_at_once (js ''How do I repeat?'')) = 1 \<and>
   always_rate_limited 0 = Inl example_error \<and> always_rate_limited 1 = Inl example_error \<and>
   shouldRetry example_error \<and>
   fst (chat_with_endpoint example_state always_rate_limited (js ''How do I repeat?'')) = 3"
proof -
  have h: "choices example_response =
     \<lparr>message = \<lparr>role = Assistant, content = Text (js ''Use a loop.'')\<rparr>\<rparr> # []"
    by (simp add: example_response_def)
  from h
    chat_calls_create_once [of example_state "Inr example_response" "js ''How do I repeat?''"
      example_response "\<lparr>message = \<lparr>role = Assistant, content = Text (js ''Use a loop.'')\<rparr>\<rparr>"
      "[]" example_error answers_at_once example_error]
  have a: "fst (chat example_state (Inr example_response) (js ''How do I repeat?'')) =
     Inr (content (message \<lparr>message = \<lparr>role = Assistant, content = Text (js ''Use a loop.'')\<rparr>\<rparr>))"
    by blast
  have e0: "answers_at_once 0 = Inr example_response"
    by (simp add: answers_at_once_def)
  from e0
    chat_calls_create_once [of example_state "Inl example_error" "js ''How do I repeat?''"
      example_response "\<lparr>message = \<lparr>role = Assistant, content = Text (js ''Use a loop.'')\<rparr>\<rparr>"
      "[]" example_error answers_at_once example_error]
  have b: "fst (chat example_state (Inl example_error) (js ''How do I repeat?'')) = Inl example_error"
    and c: "fst (chat_with_endpoint example_state answers_at_once (js ''How do I repeat?'')) = 1"
    by blast+
  have r: "always_rate_limited 0 = Inl example_error" "always_rate_limited 1 = Inl example_error"
    by (simp_all add: always_rate_limited_def)
  have sr: "shouldRetry example_error"
    by (simp add: shouldRetry_def example_error_def)
  from r sr
    chat_calls_create_once [of example_state "Inl example_error" "js ''How do I repeat?''"
      example_response "\<lparr>message = \<lparr>role = Assistant, content = Text (js ''Use a loop.'')\<rparr>\<rparr>"
      "[]" example_error always_rate_limited example_error]
  have d: "fst (chat_with_endpoint example_state always_rate_limited (js ''How do I repeat?'')) = 3"
    by blast
  from h a b c d e0 r sr show ?thesis by simp
qed

text \<open>
  The claim as it was written, exactly one request and no retry on failure, fails
  when the endpoint answers 429 to every attempt: three requests are sent before
  \<open>chat\<close> throws the error of the last one.
\<close>

theorem chat_resends_counterexample:
  "error_status example_error = Some 429 \<and>
   always_rate_limited 0 = Inl example_error \<and>
   fst (chat_with_endpoint example_state always_rate_limited (js ''How do I repeat?'')) = 3 \<and>
   fst (chat_with_endpoint example_state always_rate_limited (js ''How do I repeat?'')) \<noteq> 1 \<and>
   fst (snd (chat_with_endpoint example_state always_rate_limited (js ''How do I repeat?''))) =
     Inl example_error"
  by (simp add: chat_with_endpoint_def create_def default_maxRetries_def numeral_2_eq_2
      shouldRetry_def always_rate_limited_def example_error_def chat_def Let_def)

section \<open>Facts about the notices\<close>

lemma report_texts:
  "error_status e = Some 401 \<longrightarrow>
     report e =
       [Error ([0xA, 0x274C] @
               js '' Authentication Error: Your GITHUB_TOKEN is invalid or missing.''),
        Error (js ''Please check your .env file and try again.\<newline>'')]"
  "error_status e = Some 429 \<longrightarrow>
     report e =
       [Error ([0xA, 0x26A0, 0xFE0F] @
               js ''  Rate Limit Reached: Too many requests. Please wait a moment.\<newline>'')]"
  "error_status e = Some 500 \<longrightarrow>
     report e =
       [Error ([0xA, 0x26A0, 0xFE0F] @
               js ''  Server Error: The AI service is temporarily unavailable.\<newline>'')]"
  "error_status e \<noteq> Some 401 \<and> error_status e \<noteq> Some 429 \<and> error_status e \<noteq> Some 500 \<longrightarrow>
     report e =
       [Error ([0xA, 0x274C] @ js '' Unexpected Error: '' @ error_message e @ js ''\<newline>'')]"
  by (simp_all add: report_def authentication_notice_def rate_limit_notice_def
      server_error_notice_def unexpected_notice_def)

section \<open>Failed calls\<close>

text \<open>
  C9. When the completion call of a turn throws, the iteration prints, after the
  thinking line, the notice chosen by the error's status alone: for 401 the two lines
  of the authentication guidance, for 429 the rate-limit line, for 500 the
  server-error line, and for anything else the line \<open>Unexpected Error:\<close> followed by
  the error's message. The notices go to \<open>console.error\<close> with the texts of the source.
  The iteration does not leave the loop, the exit code and the input interface stay as
  they were, and the loop goes on with the next line. A response without any choice is
  reported with the unexpected-error line in the same way.
\<close>

theorem failed_call_is_reported:
  "trim userInput \<noteq> [] \<and> trim (toLowerCase userInput) \<noteq> js ''exit'' \<longrightarrow>
     fst (iteration s userInput (Inl error)) = Continue \<and>
     exit_code (snd (iteration s userInput (Inl error))) = exit_code s \<and>
     rl_closed (snd (iteration s userInput (Inl error))) = rl_closed s \<and>
     main_loop s ((userInput, Inl error) # rest) =
       main_loop (snd (iteration s userInput (Inl error))) rest \<and>
     (error_status error = Some 401 \<longrightarrow>
        console (snd (iteration s userInput (Inl error))) =
          console s @
            [Log (js ''\<newline>Bot: Thinking...''),
             Error ([0xA, 0x274C] @
                    js '' Authentication Error: Your GITHUB_TOKEN is invalid or missing.''),
             Error (js ''Please check your .env file and try again.\<newline>'')]) \<and>
     (error_status error = Some 429 \<longrightarrow>
        console (snd (iteration s userInput (Inl error))) =
          console s @
            [Log (js ''\<newline>Bot: Thinking...''),
             Error ([0xA, 0x26A0, 0xFE0F] @
                    js ''  Rate Limit Reached: Too many requests. Please wait a moment.\<newline>'')]) \<and>
     (error_status error = Some 500 \<longrightarrow>
        console (snd (iteration s userInput (Inl error))) =
          console s @
            [Log (js ''\<newline>Bot: Thinking...''),
             Error ([0xA, 0x26A0, 0xFE0F] @
                    js ''  Server Error: The AI service is temporarily unavailable.\<newline>'')]) \<and>
     (error_status error \<noteq> Some 401 \<and> error_status error \<noteq> Some 429 \<and>
      error_status error \<noteq> Some 500 \<longrightarrow>
        console (snd (iteration s userInput (Inl error))) =
          console s @
            [Log (js ''\<newline>Bot: Thinking...''),
             Error ([0xA, 0x274C] @ js '' Unexpected Error: '' @ error_message error @
                    js ''\<newline>'')]) \<and>
     (choices response = [] \<longrightarrow>
        fst (iteration s userInput (Inr response)) = Continue \<and>
        exit_code (snd (iteration s userInput (Inr response))) = exit_code s \<and>
        rl_closed (snd (iteration s userInput (Inr response))) = rl_closed s \<and>
        console (snd (iteration s userInput (Inr response))) =
          console s @
            [Log (js ''\<newline>Bot: Thinking...''),
             Error ([0xA, 0x274C] @ js '' Unexpected Error: '' @
                    error_message no_choice_error @ js ''\<newline>'')] \<and>
        main_loop s ((userInput, Inr response) # rest) =
          main_loop (snd (iteration s userInput (Inr response))) rest)"
proof (intro impI)
  assume h: "trim userInput \<noteq> [] \<and> trim (toLowerCase userInput) \<noteq> js ''exit''"
  then have ne: "trim userInput \<noteq> []" and nx: "trim (toLowerCase userInput) \<noteq> js ''exit''"
    by simp_all
  note thrown = iteration_thrown [OF nx ne refl, of s error]
  note none = iteration_no_choice [OF nx ne refl, of response s]
  have a: "fst (iteration s userInput (Inl error)) = Continue \<and>
     exit_code (snd (iteration s userInput (Inl error))) = exit_code s \<and>
     rl_closed (snd (iteration s userInput (Inl error))) = rl_closed s \<and>
     main_loop s ((userInput, Inl error) # rest) =
       main_loop (snd (iteration s userInput (Inl error))) rest"
    by (simp add: thrown)
  have b: "console (snd (iteration s userInput (Inl error))) =
     console s @ Log (js ''\<newline>Bot: Thinking...'') # report error"
    by (simp add: thrown)
  have c: "fst (iteration s userInput (Inr response)) = Continue \<and>
        exit_code (snd (iteration s userInput (Inr response))) = exit_code s \<and>
        rl_closed (snd (iteration s userInput (Inr response))) = rl_closed s \<and>
        console (snd (iteration s userInput (Inr response))) =
          console s @
            [Log (js ''\<newline>Bot: Thinking...''),
             Error ([0xA, 0x274C] @ js '' Unexpected Error: '' @
                    error_message no_choice_error @ js ''\<newline>'')] \<and>
        main_loop s ((userInput, Inr response) # rest) =
          main_loop (snd (iteration s userInput (Inr response))) rest"
    if "choices response = []"
    by (simp add: none [OF that] report_def unexpected_notice_def no_choice_error_def)
  from a c show "fst (iteration s userInput (Inl error)) = Continue \<and>
     exit_code (snd (iteration s userInput (Inl error))) = exit_code s \<and>
     rl_closed (snd (iteration s userInput (Inl error))) = rl_closed s \<and>
     main_loop s ((userInput, Inl error) # rest) =
       main_loop (snd (iteration s userInput (Inl error))) rest \<and>
     (error_status error = Some 401 \<longrightarrow>
        console (snd (iteration s userInput (Inl error))) =
          console s @
            [Log (js ''\<newline>Bot: Thinking...''),
             Error ([0xA, 0x274C] @
                    js '' Authentication Error: Your GITHUB_TOKEN is invalid or missing.''),
             Error (js ''Please check your .env file and try again.\<newline>'')]) \<and>
     (error_status error = Some 429 \<longrightarrow>
        console (snd (iteration s userInput (Inl error))) =
          console s @
            [Log (js ''\<newline>Bot: Thinking...''),
             Error ([0xA, 0x26A0, 0xFE0F] @
                    js ''  Rate Limit Reached: Too many requests. Please wait a moment.\<newline>'')]) \<and>
     (error_status error = Some 500 \<longrightarrow>
        console (snd (iteration s userInput (Inl error))) =
          console s @
            [Log (js ''\<newline>Bot: Thinking...''),
             Error ([0xA, 0x26A0, 0xFE0F] @
                    js ''  Server Error: The AI service is temporarily unavailable.\<newline>'')]) \<and>
     (error_status error \<noteq> Some 401 \<and> error_status error \<noteq> Some 429 \<and>
      error_status error \<noteq> Some 500 \<longrightarrow>
        console (snd (iteration s userInput (Inl error))) =
          console s @
            [Log (js ''\<newline>Bot: Thinking...''),
             Error ([0xA, 0x274C] @ js '' Unexpected Error: '' @ error_message error @
                    js ''\<newline>'')]) \<and>
     (choices response = [] \<longrightarrow>
        fst (iteration s userInput (Inr response)) = Continue \<and>
        exit_code (snd (iteration s userInput (Inr response))) = exit_code s \<and>
        rl_closed (snd (iteration s userInput (Inr response))) = rl_closed s \<and>
        console (snd (iteration s userInput (Inr response))) =
          console s @
            [Log (js ''\<newline>Bot: Thinking...''),
             Error ([0xA, 0x274C] @ js '' Unexpected Error: '' @
                    error_message no_choice_error @ js ''\<newline>'')] \<and>
        main_loop s ((userInput, Inr response) # rest) =
          main_loop (snd (iteration s userInput (Inr response))) rest)"
    by (simp add: b report_texts [of error])
qed

theorem failed_call_is_reported_witness:
  "trim (js ''hi'') \<noteq> [] \<and> trim (toLowerCase (js ''hi'')) \<noteq> js ''exit'' \<and>
   error_status example_error = Some 429 \<and>
   fst (iteration example_state (js ''hi'') (Inl example_error)) = Continue \<and>
   console (snd (iteration example_state (js ''hi'') (Inl example_error))) =
     console example_state @
       [Log (js ''\<newline>Bot: Thinking...''),
        Error ([0xA, 0x26A0, 0xFE0F] @
               js ''  Rate Limit Reached: Too many requests. Please wait a moment.\<newline>'')] \<and>
   console (snd (iteration example_state (js ''hi'')
                   (Inl \<lparr>error_status = Some 401, error_message = js ''Unauthorized''\<rparr>))) =
     console example_state @
       [Log (js ''\<newline>Bot: Thinking...''),
        Error ([0xA, 0x274C] @
               js '' Authentication Error: Your GITHUB_TOKEN is invalid or missing.''),
        Error (js ''Please check your .env file and try again.\<newline>'')] \<and>
   console (snd (iteration example_state (js ''hi'')
                   (Inl \<lparr>error_status = Some 500, error_message = js ''Internal''\<rparr>))) =
     console example_state @
       [Log (js ''\<newline>Bot: Thinking...''),
        Error ([0xA, 0x26A0, 0xFE0F] @
               js ''  Server Error: The AI service is temporarily unavailable.\<newline>'')] \<and>
   console (snd (iteration example_state (js ''hi'')
                   (Inl \<lparr>error_status = None, error_message = js ''Connection error.''\<rparr>))) =
     console example_state @
       [Log (js ''\<newline>Bot: Thinking...''),
        Error ([0xA, 0x274C] @ js '' Unexpected Error: Connection error.\<newline>'')] \<and>
   console (snd (iteration example_state (js ''hi'') (Inr \<lparr>choices = []\<rparr>))) =
     console example_state @
       [Log (js ''\<newline>Bot: Thinking...''),
        Error ([0xA, 0x274C] @ js '' Unexpected Error: '' @
               error_message no_choice_error @ js ''\<newline>'')]"
proof -
  have h: "trim (js ''hi'') \<noteq> [] \<and> trim (toLowerCase (js ''hi'')) \<noteq> js ''exit''"
    by (simp add: js_def trim_def trimStart_def trimEnd_def isWhiteSpace_def
        toLowerCase_def toLowerUnit_def)
  have st: "error_status example_error = Some 429"
    by (simp add: example_error_def)
  from h st failed_call_is_reported [of "js ''hi''" example_state example_error "[]"]
  have a: "fst (iteration example_state (js ''hi'') (Inl example_error)) = Continue"
    and b: "console (snd (iteration example_state (js ''hi'') (Inl example_error))) =
     console example_state @
       [Log (js ''\<newline>Bot: Thinking...''),
        Error ([0xA, 0x26A0, 0xFE0F] @
               js ''  Rate Limit Reached: Too many requests. Please wait a moment.\<newline>'')]"
    by blast+
  from h failed_call_is_reported
    [where userInput = "js ''hi''" and s = example_state
       and error = "\<lparr>error_status = Some 401, error_message = js ''Unauthorized''\<rparr>"]
  have d: "console (snd (iteration example_state (js ''hi'')
                   (Inl \<lparr>error_status = Some 401, error_message = js ''Unauthorized''\<rparr>))) =
     console example_state @
       [Log (js ''\<newline>Bot: Thinking...''),
        Error ([0xA, 0x274C] @
               js '' Authentication Error: Your GITHUB_TOKEN is invalid or missing.''),
        Error (js ''Please check your .env file and try again.\<newline>'')]"
    by simp
  from h failed_call_is_reported
    [where userInput = "js ''hi''" and s = example_state
       and error = "\<lparr>error_status = Some 500, error_message = js ''Internal''\<rparr>"]
  have e: "console (snd (iteration example_state (js ''hi'')
                   (Inl \<lparr>error_status = Some 500, error_message = js ''Internal''\<rparr>))) =
     console example_state @
       [Log (js ''\<newline>Bot: Thinking...''),
        Error ([0xA, 0x26A0, 0xFE0F] @
               js ''  Server Error: The AI service is temporarily unavailable.\<newline>'')]"
    by simp
  from h failed_call_is_reported
    [where userInput = "js ''hi''" and s = example_state
       and error = "\<lparr>error_status = None, error_message = js ''Connection error.''\<rparr>"]
  have f: "console (snd (iteration example_state (js ''hi'')
                   (Inl \<lparr>error_status = None, error_message = js ''Connection error.''\<rparr>))) =
     console example_state @
       [Log (js ''\<newline>Bot: Thinking...''),
        Error ([0xA, 0x274C] @ js '' Unexpected Error: '' @ js ''Connection error.'' @
               js ''\<newline>'')]"
    by simp
  have g: "js '' Unexpected Error: '' @ js ''Connection error.'' @ js ''\<newline>'' =
           js '' Unexpected Error: Connection error.\<newline>''"
    by (simp add: js_def)
  from h failed_call_is_reported
    [where userInput = "js ''hi''" and s = example_state and response = "\<lparr>choices = []\<rparr>"]
  have i: "console (snd (iteration example_state (js ''hi'') (Inr \<lparr>choices = []\<rparr>))) =
     console example_state @
       [Log (js ''\<newline>Bot: Thinking...''),
        Error ([0xA, 0x274C] @ js '' Unexpected Error: '' @
               error_message no_choice_error @ js ''\<newline>'')]"
    by simp
  from h st a b d e f i show ?thesis by (simp only: g simp_thms)
qed

section \<open>The user message\<close>

text \<open>
  C10. For a line that is not the exit command: when the trimmed line is not empty, the
  history is extended by a user message whose content is the trimmed line, and the
  request issued carries the history with that message at its end; when the line is
  white space only, no message is appended and no request issued. In every case, each
  user message appended by the iteration has the trimmed line as its content.
\<close>

theorem user_message_is_trimmed_input:
  "trim (toLowerCase userInput) \<noteq> js ''exit'' \<longrightarrow>
     (trim userInput \<noteq> [] \<longrightarrow>
        prefix (conversationHistory s @ [\<lparr>role = User, content = Text (trim userInput)\<rparr>])
               (conversationHistory (snd (iteration s userInput created))) \<and>
        requests (snd (iteration s userInput created)) =
          requests s @
            [\<lparr>model = js ''gpt-4o'',
              messages = conversationHistory s @
                           [\<lparr>role = User, content = Text (trim userInput)\<rparr>],
              temperature = 0.7, max_tokens = 1024\<rparr>]) \<and>
     (trim userInput = [] \<longrightarrow>
        conversationHistory (snd (iteration s userInput created)) = conversationHistory s \<and>
        requests (snd (iteration s userInput created)) = requests s) \<and>
     list_all (\<lambda>m. role m = User \<longrightarrow> content m = Text (trim userInput))
       (drop (length (conversationHistory s))
          (conversationHistory (snd (iteration s userInput created))))"
  by (simp add: iteration_def chat_def Let_def split: sum.splits list.splits)

theorem user_message_is_trimmed_input_witness:
  "trim (toLowerCase (js ''  Hi there  '')) \<noteq> js ''exit'' \<and>
   trim (js ''  Hi there  '') = js ''Hi there'' \<and>
   prefix (conversationHistory example_state @
             [\<lparr>role = User, content = Text (js ''Hi there'')\<rparr>])
          (conversationHistory
             (snd (iteration example_state (js ''  Hi there  '') (Inr example_response)))) \<and>
   requests (snd (iteration example_state (js ''  Hi there  '') (Inr example_response))) =
     requests example_state @
       [\<lparr>model = js ''gpt-4o'',
         messages = conversationHistory example_state @
                      [\<lparr>role = User, content = Text (js ''Hi there'')\<rparr>],
         temperature = 0.7, max_tokens = 1024\<rparr>] \<and>
   trim (toLowerCase [0x20, 0x9]) \<noteq> js ''exit'' \<and> trim [0x20, 0x9] = [] \<and>
   conversationHistory (snd (iteration example_state [0x20, 0x9] (Inr example_response))) =
     conversationHistory example_state \<and>
   requests (snd (iteration example_state [0x20, 0x9] (Inr example_response))) =
     requests example_state"
proof -
  have h: "trim (toLowerCase (js ''  Hi there  '')) \<noteq> js ''exit''"
    by (simp add: js_def trim_def trimStart_def trimEnd_def isWhiteSpace_def
        toLowerCase_def toLowerUnit_def)
  have t: "trim (js ''  Hi there  '') = js ''Hi there''"
    by (simp add: js_def trim_def trimStart_def trimEnd_def isWhiteSpace_def)
  then have n: "trim (js ''  Hi there  '') \<noteq> []" by (simp add: js_def)
  from h n
    user_message_is_trimmed_input [of "js ''  Hi there  ''" example_state "Inr example_response"]
  have "prefix (conversationHistory example_state @
             [\<lparr>role = User, content = Text (trim (js ''  Hi there  ''))\<rparr>])
          (conversationHistory
             (snd (iteration example_state (js ''  Hi there  '') (Inr example_response))))"
    and "requests (snd (iteration example_state (js ''  Hi there  '') (Inr example_response))) =
     requests example_state @
       [\<lparr>model = js ''gpt-4o'',
         messages = conversationHistory example_state @
                      [\<lparr>role = User, content = Text (trim (js ''  Hi there  ''))\<rparr>],
         temperature = 0.7, max_tokens = 1024\<rparr>]"
    by blast+
  note filled = this
  have hb: "trim (toLowerCase [0x20, 0x9]) \<noteq> js ''exit''"
    by (simp add: js_def trim_def trimStart_def trimEnd_def isWhiteSpace_def
        toLowerCase_def toLowerUnit_def)
  have tb: "trim [0x20, 0x9] = []"
    by (simp add: trim_def trimStart_def trimEnd_def isWhiteSpace_def)
  from hb tb
    user_message_is_trimmed_input [of "[0x20, 0x9]" example_state "Inr example_response"]
  have "conversationHistory (snd (iteration example_state [0x20, 0x9] (Inr example_response))) =
     conversationHistory example_state"
    and "requests (snd (iteration example_state [0x20, 0x9] (Inr example_response))) =
     requests example_state"
    by blast+
  with filled h t hb tb show ?thesis by (simp only: simp_thms)
qed

section \<open>Facts about the history of a run\<close>

lemma pairs_length:
  "length (concat (map (\<lambda>(l, r). [f l r, g l r]) turns)) = 2 * length turns"
  by (induction turns) auto

lemma main_loop_successful:
  "list_all (\<lambda>(l, r). trim l \<noteq> [] \<and> trim (toLowerCase l) \<noteq> js ''exit'' \<and> choices r \<noteq> [])
     turns \<Longrightarrow>
   conversationHistory (snd (main_loop s (map (\<lambda>(l, r). (l, Inr r)) turns))) =
     conversationHistory s @
       concat (map (\<lambda>(l, r). [\<lparr>role = User, content = Text (trim l)\<rparr>,
                               \<lparr>role = Assistant, content = content (message (hd (choices r)))\<rparr>])
                turns)"
proof (induction turns arbitrary: s)
  case Nil
  then show ?case by simp
next
  case (Cons t turns)
  obtain l r where t: "t = (l, r)" by (cases t)
  with Cons.prems have l: "trim (toLowerCase l) \<noteq> js ''exit''" "trim l \<noteq> []"
    and r: "choices r \<noteq> []" and rest: "list_all (\<lambda>(l, r). trim l \<noteq> [] \<and>
      trim (toLowerCase l) \<noteq> js ''exit'' \<and> choices r \<noteq> []) turns"
    by simp_all
  from r obtain c cs where c: "choices r = c # cs" by (cases "choices r") simp_all
  have "conversationHistory (snd (iteration s l (Inr r))) =
        conversationHistory s @ [\<lparr>role = User, content = Text (trim l)\<rparr>,
          \<lparr>role = Assistant, content = content (message (hd (choices r)))\<rparr>]"
    by (simp add: iteration_success [OF l refl c] c)
  with Cons.IH [OF rest, of "snd (iteration s l (Inr r))"] l t
  show ?case by (simp add: main_loop_step del: main_loop.simps(2))
qed

lemma program_empty_token:
  assumes "fst (loadEnv env0 file) (js ''GITHUB_TOKEN'') = Some []"
  shows "program env0 file inputs =
         exited_without_token (fst (loadEnv env0 file)) (snd (loadEnv env0 file))"
proof -
  obtain env1 printed where l: "loadEnv env0 file = (env1, printed)"
    by (cases "loadEnv env0 file")
  with assms have "env1 (js ''GITHUB_TOKEN'') = Some []" by simp
  with l show ?thesis by (simp add: program_def)
qed

lemma program_history:
  "conversationHistory (program env0 file inputs) =
     (case fst (loadEnv env0 file) (js ''GITHUB_TOKEN'') of
        None \<Rightarrow> []
      | Some token \<Rightarrow>
          if token = [] then []
          else conversationHistory
                 (snd (main_loop
                    ((started (fst (loadEnv env0 file)) (snd (loadEnv env0 file)) token)
                       \<lparr>console := snd (loadEnv env0 file) @ banner\<rparr>) inputs)))"
proof (cases "fst (loadEnv env0 file) (js ''GITHUB_TOKEN'')")
  case None
  then show ?thesis by (simp add: program_without_token exited_without_token_def)
next
  case (Some token)
  show ?thesis
  proof (cases "token = []")
    case True
    with Some show ?thesis by (simp add: program_empty_token exited_without_token_def)
  next
    case False
    with Some show ?thesis
      by (simp add: program_with_token split: prod.splits control.splits)
  qed
qed

lemma program_history_prefix:
  "prefix (conversationHistory (program env0 file (take k inputs)))
          (conversationHistory (program env0 file inputs))"
  by (simp add: program_history main_loop_take_prefix split: option.splits)

section \<open>The transcript after successful turns\<close>

text \<open>
  C1. With a token present, after N turns each of which is a line that is not blank and
  not the exit command, answered by a response with at least one choice, the history
  is the system message followed by N pairs of a user message (the trimmed line) and
  an assistant message (the content of the first choice), in the order of the turns,
  1 + 2N messages in all. For any lines whatever, the history after the first k of
  them is a prefix of the history after all of them: no message is removed or changed
  once appended.
\<close>

theorem successful_turns_transcript:
  "(fst (loadEnv env0 file) (js ''GITHUB_TOKEN'') = Some token \<and> token \<noteq> [] \<and>
    list_all (\<lambda>(l, r). trim l \<noteq> [] \<and> trim (toLowerCase l) \<noteq> js ''exit'' \<and> choices r \<noteq> [])
      turns \<longrightarrow>
      conversationHistory (program env0 file (map (\<lambda>(l, r). (l, Inr r)) turns)) =
        \<lparr>role = System, content = Text system_prompt\<rparr> #
        concat (map (\<lambda>(l, r). [\<lparr>role = User, content = Text (trim l)\<rparr>,
                                \<lparr>role = Assistant,
                                 content = content (message (hd (choices r)))\<rparr>]) turns) \<and>
      length (conversationHistory (program env0 file (map (\<lambda>(l, r). (l, Inr r)) turns))) =
        1 + 2 * length turns) \<and>
   prefix (conversationHistory (program env0 file (take k inputs)))
          (conversationHistory (program env0 file inputs))"
proof (intro conjI impI)
  assume h: "fst (loadEnv env0 file) (js ''GITHUB_TOKEN'') = Some token \<and> token \<noteq> [] \<and>
    list_all (\<lambda>(l, r). trim l \<noteq> [] \<and> trim (toLowerCase l) \<noteq> js ''exit'' \<and> choices r \<noteq> [])
      turns"
  then show eq: "conversationHistory (program env0 file (map (\<lambda>(l, r). (l, Inr r)) turns)) =
        \<lparr>role = System, content = Text system_prompt\<rparr> #
        concat (map (\<lambda>(l, r). [\<lparr>role = User, content = Text (trim l)\<rparr>,
                                \<lparr>role = Assistant,
                                 content = content (message (hd (choices r)))\<rparr>]) turns)"
    by (simp add: program_history main_loop_successful started_def initial_history_def)
  show "length (conversationHistory (program env0 file (map (\<lambda>(l, r). (l, Inr r)) turns))) =
        1 + 2 * length turns"
    by (simp only: eq list.size pairs_length)
next
  show "prefix (conversationHistory (program env0 file (take k inputs)))
          (conversationHistory (program env0 file inputs))"
    by (rule program_history_prefix)
qed

theorem successful_turns_transcript_witness:
  "fst (loadEnv example_env (Inl (js ''ENOENT''))) (js ''GITHUB_TOKEN'') = Some (js ''t0ken'') \<and>
   js ''t0ken'' \<noteq> [] \<and>
   list_all (\<lambda>(l, r). trim l \<noteq> [] \<and> trim (toLowerCase l) \<noteq> js ''exit'' \<and> choices r \<noteq> [])
     [(js ''hi'', example_response), (js '' again '', example_response)] \<and>
   conversationHistory
     (program example_env (Inl (js ''ENOENT''))
        [(js ''hi'', Inr example_response), (js '' again '', Inr example_response)]) =
     [\<lparr>role = System, content = Text system_prompt\<rparr>,
      \<lparr>role = User, content = Text (js ''hi'')\<rparr>,
      \<lparr>role = Assistant, content = Text (js ''Use a loop.'')\<rparr>,
      \<lparr>role = User, content = Text (js ''again'')\<rparr>,
      \<lparr>role = Assistant, content = Text (js ''Use a loop.'')\<rparr>] \<and>
   length (conversationHistory
     (program example_env (Inl (js ''ENOENT''))
        [(js ''hi'', Inr example_response), (js '' again '', Inr example_response)])) = 5"
proof -
  have h2: "fst (loadEnv example_env (Inl (js ''ENOENT''))) (js ''GITHUB_TOKEN'') =
            Some (js ''t0ken'')"
    by (simp add: loadEnv_def example_env_def)
  have h3: "js ''t0ken'' \<noteq> []" by (simp add: js_def)
  have h4: "list_all (\<lambda>(l, r). trim l \<noteq> [] \<and> trim (toLowerCase l) \<noteq> js ''exit'' \<and>
                        choices r \<noteq> [])
     [(js ''hi'', example_response), (js '' again '', example_response)]"
    by (simp add: js_def trim_def trimStart_def trimEnd_def isWhiteSpace_def
        toLowerCase_def toLowerUnit_def example_response_def)
  have t: "trim (js ''hi'') = js ''hi''" "trim (js '' again '') = js ''again''"
    by (simp_all add: js_def trim_def trimStart_def trimEnd_def isWhiteSpace_def)
  from h2 h3 h4
    successful_turns_transcript [of example_env "Inl (js ''ENOENT'')" "js ''t0ken''"
      "[(js ''hi'', example_response), (js '' again '', example_response)]" 0 "[]"]
  have "conversationHistory
     (program example_env (Inl (js ''ENOENT''))
        (map (\<lambda>(l, r). (l, Inr r))
           [(js ''hi'', example_response), (js '' again '', example_response)])) =
        \<lparr>role = System, content = Text system_prompt\<rparr> #
        concat (map (\<lambda>(l, r). [\<lparr>role = User, content = Text (trim l)\<rparr>,
                                \<lparr>role = Assistant,
                                 content = content (message (hd (choices r)))\<rparr>])
           [(js ''hi'', example_response), (js '' again '', example_response)])"
    and "length (conversationHistory
     (program example_env (Inl (js ''ENOENT''))
        (map (\<lambda>(l, r). (l, Inr r))
           [(js ''hi'', example_response), (js '' again '', example_response)]))) =
        1 + 2 * length [(js ''hi'', example_response), (js '' again '', example_response)]"
    by blast+
  then have "conversationHistory
     (program example_env (Inl (js ''ENOENT''))
        [(js ''hi'', Inr example_response), (js '' again '', Inr example_response)]) =
     [\<lparr>role = System, content = Text system_prompt\<rparr>,
      \<lparr>role = User, content = Text (js ''hi'')\<rparr>,
      \<lparr>role = Assistant, content = Text (js ''Use a loop.'')\<rparr>,
      \<lparr>role = User, content = Text (js ''again'')\<rparr>,
      \<lparr>role = Assistant, content = Text (js ''Use a loop.'')\<rparr>]"
    and "length (conversationHistory
     (program example_env (Inl (js ''ENOENT''))
        [(js ''hi'', Inr example_response), (js '' again '', Inr example_response)])) = 5"
    by (simp_all add: t example_response_def)
  with h2 h3 h4 show ?thesis by blast
qed

section \<open>The transcript after a failed turn\<close>

text \<open>
  C2. In a turn (a line that is not blank and not the exit command) whose completion
  call throws, or returns no choice, the history grows by exactly one message, the user
  message, and no assistant message is appended. That user message stays in the
  history whatever lines follow, and the request of the next turn carries it, followed
  by the next user message.
\<close>

theorem failed_turn_keeps_user_message:
  "trim userInput \<noteq> [] \<and> trim (toLowerCase userInput) \<noteq> js ''exit'' \<and>
   (created = Inl error \<or> (created = Inr response \<and> choices response = [])) \<longrightarrow>
     conversationHistory (snd (iteration s userInput created)) =
       conversationHistory s @ [\<lparr>role = User, content = Text (trim userInput)\<rparr>] \<and>
     length (conversationHistory (snd (iteration s userInput created))) =
       length (conversationHistory s) + 1 \<and>
     prefix (conversationHistory s @ [\<lparr>role = User, content = Text (trim userInput)\<rparr>])
       (conversationHistory (snd (main_loop (snd (iteration s userInput created)) later))) \<and>
     (trim nextInput \<noteq> [] \<and> trim (toLowerCase nextInput) \<noteq> js ''exit'' \<longrightarrow>
        messages (last (requests
           (snd (iteration (snd (iteration s userInput created)) nextInput created')))) =
          conversationHistory s @
            [\<lparr>role = User, content = Text (trim userInput)\<rparr>,
             \<lparr>role = User, content = Text (trim nextInput)\<rparr>])"
proof (intro impI)
  assume h: "trim userInput \<noteq> [] \<and> trim (toLowerCase userInput) \<noteq> js ''exit'' \<and>
   (created = Inl error \<or> (created = Inr response \<and> choices response = []))"
  let ?s' = "snd (iteration s userInput created)"
  from h have eq: "conversationHistory ?s' =
       conversationHistory s @ [\<lparr>role = User, content = Text (trim userInput)\<rparr>]"
    by (auto simp add: iteration_thrown iteration_no_choice)
  have p: "prefix (conversationHistory ?s') (conversationHistory (snd (main_loop ?s' later)))"
    by (rule main_loop_history_prefix)
  have n: "messages (last (requests (snd (iteration ?s' nextInput created')))) =
          conversationHistory ?s' @ [\<lparr>role = User, content = Text (trim nextInput)\<rparr>]"
    if "trim nextInput \<noteq> []" "trim (toLowerCase nextInput) \<noteq> js ''exit''"
    using that by (simp add: iteration_requests)
  from eq p n show "conversationHistory ?s' =
       conversationHistory s @ [\<lparr>role = User, content = Text (trim userInput)\<rparr>] \<and>
     length (conversationHistory ?s') = length (conversationHistory s) + 1 \<and>
     prefix (conversationHistory s @ [\<lparr>role = User, content = Text (trim userInput)\<rparr>])
       (conversationHistory (snd (main_loop ?s' later))) \<and>
     (trim nextInput \<noteq> [] \<and> trim (toLowerCase nextInput) \<noteq> js ''exit'' \<longrightarrow>
        messages (last (requests (snd (iteration ?s' nextInput created')))) =
          conversationHistory s @
            [\<lparr>role = User, content = Text (trim userInput)\<rparr>,
             \<lparr>role = User, content = Text (trim nextInput)\<rparr>])"
    by simp
qed

theorem failed_turn_keeps_user_message_witness:
  "trim (js ''hi'') \<noteq> [] \<and> trim (toLowerCase (js ''hi'')) \<noteq> js ''exit'' \<and>
   trim (js ''again'') \<noteq> [] \<and> trim (toLowerCase (js ''again'')) \<noteq> js ''exit'' \<and>
   conversationHistory (snd (iteration example_state (js ''hi'') (Inl example_error))) =
     initial_history @ [\<lparr>role = User, content = Text (js ''hi'')\<rparr>] \<and>
   length (conversationHistory (snd (iteration example_state (js ''hi'') (Inl example_error)))) =
     2 \<and>
   messages (last (requests
      (snd (iteration (snd (iteration example_state (js ''hi'') (Inl example_error)))
              (js ''again'') (Inr example_response))))) =
     initial_history @
       [\<lparr>role = User, content = Text (js ''hi'')\<rparr>,
        \<lparr>role = User, content = Text (js ''again'')\<rparr>] \<and>
   conversationHistory (snd (iteration example_state (js ''hi'') (Inr \<lparr>choices = []\<rparr>))) =
     initial_history @ [\<lparr>role = User, content = Text (js ''hi'')\<rparr>]"
proof -
  have h: "trim (js ''hi'') \<noteq> [] \<and> trim (toLowerCase (js ''hi'')) \<noteq> js ''exit''"
    by (simp add: js_def trim_def trimStart_def trimEnd_def isWhiteSpace_def
        toLowerCase_def toLowerUnit_def)
  have h': "trim (js ''again'') \<noteq> [] \<and> trim (toLowerCase (js ''again'')) \<noteq> js ''exit''"
    by (simp add: js_def trim_def trimStart_def trimEnd_def isWhiteSpace_def
        toLowerCase_def toLowerUnit_def)
  have t: "trim (js ''hi'') = js ''hi''" "trim (js ''again'') = js ''again''"
    by (simp_all add: js_def trim_def trimStart_def trimEnd_def isWhiteSpace_def)
  have i: "conversationHistory example_state = initial_history"
    by (simp add: example_state_def started_def)
  from h h'
    failed_turn_keeps_user_message [of "js ''hi''" "Inl example_error" example_error
      example_response example_state "[]" "js ''again''" "Inr example_response"]
  have "conversationHistory (snd (iteration example_state (js ''hi'') (Inl example_error))) =
       conversationHistory example_state @ [\<lparr>role = User, content = Text (trim (js ''hi''))\<rparr>]"
    and "length (conversationHistory
           (snd (iteration example_state (js ''hi'') (Inl example_error)))) =
         length (conversationHistory example_state) + 1"
    and "messages (last (requests
           (snd (iteration (snd (iteration example_state (js ''hi'') (Inl example_error)))
              (js ''again'') (Inr example_response))))) =
          conversationHistory example_state @
            [\<lparr>role = User, content = Text (trim (js ''hi''))\<rparr>,
             \<lparr>role = User, content = Text (trim (js ''again''))\<rparr>]"
    by blast+
  then have "conversationHistory (snd (iteration example_state (js ''hi'') (Inl example_error))) =
     initial_history @ [\<lparr>role = User, content = Text (js ''hi'')\<rparr>]"
    and "length (conversationHistory
           (snd (iteration example_state (js ''hi'') (Inl example_error)))) = 2"
    and "messages (last (requests
      (snd (iteration (snd (iteration example_state (js ''hi'') (Inl example_error)))
              (js ''again'') (Inr example_response))))) =
     initial_history @
       [\<lparr>role = User, content = Text (js ''hi'')\<rparr>,
        \<lparr>role = User, content = Text (js ''again'')\<rparr>]"
    by (simp_all only: t i) (simp add: initial_history_def)
  note thrown = this
  from h
    failed_turn_keeps_user_message [of "js ''hi''" "Inr \<lparr>choices = []\<rparr>" example_error
      "\<lparr>choices = []\<rparr>" example_state "[]" "js ''again''" "Inr example_response"]
  have "conversationHistory (snd (iteration example_state (js ''hi'') (Inr \<lparr>choices = []\<rparr>))) =
       conversationHistory example_state @ [\<lparr>role = User, content = Text (trim (js ''hi''))\<rparr>]"
    by simp
  then have "conversationHistory
       (snd (iteration example_state (js ''hi'') (Inr \<lparr>choices = []\<rparr>))) =
     initial_history @ [\<lparr>role = User, content = Text (js ''hi'')\<rparr>]"
    by (simp only: t i)
  with thrown h h' show ?thesis by blast
qed

end
